theory Spec2Isabelle
  imports Complex_Main
begin

section \<open>Exceptions, responses and attempt outcomes\<close>

text \<open>
  The classifiers inspect a failure through \<^verbatim>\<open>isinstance\<close> and, for a status-carrying
  error, through \<^verbatim>\<open>exc.response\<close>. The classes are those of the HTTP client library's
  exception hierarchy, together with Python's two root classes and one stand-in for any
  exception class defined elsewhere (a direct subclass of \<^verbatim>\<open>Exception\<close>).

  One datatype serves for classes and for instances: the tag alone (payload \<open>unit\<close>) is
  a class, the tag with a payload is an instance. Only \<open>HTTPStatusError\<close> has a payload,
  the response it was raised for, so an instance of that class always has a response and
  no other instance has one.
\<close>

datatype 'r exc =
    BaseException
  | Exception
  | OtherException
  | HTTPError
  | HTTPStatusError 'r
  | RequestError
  | TransportError
  | TimeoutException
  | ConnectTimeout
  | ReadTimeout
  | WriteTimeout
  | PoolTimeout
  | NetworkError
  | ConnectError
  | ReadError
  | WriteError
  | CloseError
  | ProtocolError
  | LocalProtocolError
  | RemoteProtocolError
  | ProxyError
  | UnsupportedProtocol
  | DecodingError
  | TooManyRedirects

type_synonym exc_class = "unit exc"

text \<open>
  A response has its status code and its header fields, in the order received; a field
  name may occur more than once.
\<close>

record response =
  status_code :: int
  headers :: "(string \<times> string) list"

type_synonym exn = "response exc"

definition type_of :: "exn \<Rightarrow> exc_class" where
  "type_of e = map_exc (\<lambda>_. ()) e"

definition to_lower :: "char \<Rightarrow> char" where
  "to_lower c =
     (case map_of (zip ''ABCDEFGHIJKLMNOPQRSTUVWXYZ'' ''abcdefghijklmnopqrstuvwxyz'') c of
        Some l \<Rightarrow> l
      | None \<Rightarrow> c)"

text \<open>
  Modelled from the spec: the lookup of a header in a response, which belongs to the HTTP
  client library: field names, which are ASCII, are compared without regard to case, and
  the values of a name that occurs several times are joined by a comma and a space. A
  name that does not occur gives the default, here \<open>None\<close>.
\<close>

fun join_values :: "string list \<Rightarrow> string" where
  "join_values [] = []"
| "join_values [v] = v"
| "join_values (v # vs) = v @ '', '' @ join_values vs"

definition headers_get :: "(string \<times> string) list \<Rightarrow> string \<Rightarrow> string option" where
  "headers_get hs key =
     (let items = map snd (filter (\<lambda>kv. map to_lower (fst kv) = map to_lower key) hs)
      in if items = [] then None else Some (join_values items))"

text \<open>The method resolution order of each class: the class itself, then its ancestors.\<close>

fun mro :: "exc_class \<Rightarrow> exc_class list" where
  "mro BaseException = [BaseException]"
| "mro Exception = [Exception, BaseException]"
| "mro OtherException = [OtherException, Exception, BaseException]"
| "mro HTTPError = [HTTPError, Exception, BaseException]"
| "mro (HTTPStatusError u) = [HTTPStatusError (), HTTPError, Exception, BaseException]"
| "mro RequestError = [RequestError, HTTPError, Exception, BaseException]"
| "mro TransportError = [TransportError, RequestError, HTTPError, Exception, BaseException]"
| "mro TimeoutException =
     [TimeoutException, TransportError, RequestError, HTTPError, Exception, BaseException]"
| "mro ConnectTimeout =
     [ConnectTimeout, TimeoutException, TransportError, RequestError, HTTPError, Exception,
      BaseException]"
| "mro ReadTimeout =
     [ReadTimeout, TimeoutException, TransportError, RequestError, HTTPError, Exception,
      BaseException]"
| "mro WriteTimeout =
     [WriteTimeout, TimeoutException, TransportError, RequestError, HTTPError, Exception,
      BaseException]"
| "mro PoolTimeout =
     [PoolTimeout, TimeoutException, TransportError, RequestError, HTTPError, Exception,
      BaseException]"
| "mro NetworkError =
     [NetworkError, TransportError, RequestError, HTTPError, Exception, BaseException]"
| "mro ConnectError =
     [ConnectError, NetworkError, TransportError, RequestError, HTTPError, Exception,
      BaseException]"
| "mro ReadError =
     [ReadError, NetworkError, TransportError, RequestError, HTTPError, Exception,
      BaseException]"
| "mro WriteError =
     [WriteError, NetworkError, TransportError, RequestError, HTTPError, Exception,
      BaseException]"
| "mro CloseError =
     [CloseError, NetworkError, TransportError, RequestError, HTTPError, Exception,
      BaseException]"
| "mro ProtocolError =
     [ProtocolError, TransportError, RequestError, HTTPError, Exception, BaseException]"
| "mro LocalProtocolError =
     [LocalProtocolError, ProtocolError, TransportError, RequestError, HTTPError, Exception,
      BaseException]"
| "mro RemoteProtocolError =
     [RemoteProtocolError, ProtocolError, TransportError, RequestError, HTTPError, Exception,
      BaseException]"
| "mro ProxyError =
     [ProxyError, TransportError, RequestError, HTTPError, Exception, BaseException]"
| "mro UnsupportedProtocol =
     [UnsupportedProtocol, TransportError, RequestError, HTTPError, Exception, BaseException]"
| "mro DecodingError = [DecodingError, RequestError, HTTPError, Exception, BaseException]"
| "mro TooManyRedirects =
     [TooManyRedirects, RequestError, HTTPError, Exception, BaseException]"

text \<open>
  The second argument of \<^verbatim>\<open>isinstance\<close> is one class or a tuple of classes; the first
  may be \<^verbatim>\<open>None\<close>, which is an instance of none of them.
\<close>

datatype class_info = OneClass exc_class | ClassTuple "exc_class list"

fun classes_of :: "class_info \<Rightarrow> exc_class list" where
  "classes_of (OneClass c) = [c]"
| "classes_of (ClassTuple cs) = cs"

definition isinstance :: "exn option \<Rightarrow> class_info \<Rightarrow> bool" where
  "isinstance exc info =
     (case exc of
        None \<Rightarrow> False
      | Some e \<Rightarrow> list_ex (\<lambda>c. c \<in> set (mro (type_of e))) (classes_of info))"

text \<open>
  The outcome of an attempt is a finished future: it holds either the value the call
  returned or the exception it raised. \<^verbatim>\<open>outcome.exception()\<close> is \<^verbatim>\<open>None\<close> for the
  former. The retry state has no outcome before the first attempt has finished.
\<close>

datatype outcome = Returned | Raised exn

fun exception :: "outcome \<Rightarrow> exn option" where
  "exception Returned = None"
| "exception (Raised e) = Some e"

record retry_state =
  attempt_number :: int
  outcome :: "outcome option"

section \<open>Constants\<close>

definition MAX_ATTEMPTS :: int where
  "MAX_ATTEMPTS = 3"

definition TOO_MANY_REQUESTS :: int where
  "TOO_MANY_REQUESTS = 429"

definition INTERNAL_SERVER_ERROR :: int where
  "INTERNAL_SERVER_ERROR = 500"

definition BAD_GATEWAY :: int where
  "BAD_GATEWAY = 502"

definition SERVICE_UNAVAILABLE :: int where
  "SERVICE_UNAVAILABLE = 503"

definition GATEWAY_TIMEOUT :: int where
  "GATEWAY_TIMEOUT = 504"

text \<open>
  A set of status codes is given as a sequence of codes or as one code.
\<close>

datatype status_codes = Code int | Codes "int list"

definition RETRY_SERVER_ERROR_CODES :: status_codes where
  "RETRY_SERVER_ERROR_CODES =
     Codes [INTERNAL_SERVER_ERROR, BAD_GATEWAY, GATEWAY_TIMEOUT, SERVICE_UNAVAILABLE]"

definition RETRY_NETWORK_ERRORS :: class_info where
  "RETRY_NETWORK_ERRORS = ClassTuple [ConnectError, ReadError, WriteError]"

definition RETRY_NETWORK_TIMEOUTS :: class_info where
  "RETRY_NETWORK_TIMEOUTS = ClassTuple [TimeoutException]"

section \<open>Classification of a failure\<close>

definition is_rate_limited :: "exn option \<Rightarrow> bool" where
  "is_rate_limited exc =
     (case exc of
        Some (HTTPStatusError r) \<Rightarrow> status_code r = TOO_MANY_REQUESTS
      | _ \<Rightarrow> False)"

text \<open>
  \<^verbatim>\<open>_is_server_error\<close> first turns a single code into a one-element list. Its own default
  for \<^verbatim>\<open>status_codes\<close>, every code from 500 to 599, applies only to a call that leaves
  the argument out; every call in the module passes it.
\<close>

definition is_server_error_default_status_codes :: status_codes where
  "is_server_error_default_status_codes = Codes [500..599]"

fun normalize_status_codes :: "status_codes \<Rightarrow> int list" where
  "normalize_status_codes (Code c) = [c]"
| "normalize_status_codes (Codes cs) = cs"

definition is_server_error :: "exn option \<Rightarrow> status_codes \<Rightarrow> bool" where
  "is_server_error exc status_codes =
     (let status_codes = normalize_status_codes status_codes in
      case exc of
        Some (HTTPStatusError r) \<Rightarrow> status_code r \<in> set status_codes
      | _ \<Rightarrow> False)"

subsection \<open>Retry predicates\<close>

definition retry_if_rate_limited :: "retry_state \<Rightarrow> bool" where
  "retry_if_rate_limited rs =
     (case outcome rs of
        Some oc \<Rightarrow> is_rate_limited (exception oc)
      | None \<Rightarrow> False)"

text \<open>
  The constructors of the network predicates replace a missing argument by the default.
  Their second test, \<^verbatim>\<open>isinstance(errors, BaseException)\<close>, asks whether the argument is
  an exception instance; a class or a tuple of classes is not, so the argument is kept.
\<close>

definition retry_if_network_error_init :: "class_info option \<Rightarrow> class_info" where
  "retry_if_network_error_init errors =
     (case errors of None \<Rightarrow> RETRY_NETWORK_ERRORS | Some e \<Rightarrow> e)"

definition retry_if_network_error :: "class_info option \<Rightarrow> retry_state \<Rightarrow> bool" where
  "retry_if_network_error errors rs =
     (case outcome rs of
        Some oc \<Rightarrow> isinstance (exception oc) (retry_if_network_error_init errors)
      | None \<Rightarrow> False)"

definition retry_if_network_timeout_init :: "class_info option \<Rightarrow> class_info" where
  "retry_if_network_timeout_init timeouts =
     (case timeouts of None \<Rightarrow> RETRY_NETWORK_TIMEOUTS | Some t \<Rightarrow> t)"

definition retry_if_network_timeout :: "class_info option \<Rightarrow> retry_state \<Rightarrow> bool" where
  "retry_if_network_timeout timeouts rs =
     (case outcome rs of
        Some oc \<Rightarrow> isinstance (exception oc) (retry_if_network_timeout_init timeouts)
      | None \<Rightarrow> False)"

definition retry_if_server_error_init :: "status_codes option \<Rightarrow> status_codes" where
  "retry_if_server_error_init server_error_codes =
     (case server_error_codes of None \<Rightarrow> RETRY_SERVER_ERROR_CODES | Some c \<Rightarrow> c)"

definition retry_if_server_error :: "status_codes option \<Rightarrow> retry_state \<Rightarrow> bool" where
  "retry_if_server_error server_error_codes rs =
     (case outcome rs of
        Some oc \<Rightarrow>
          is_server_error (exception oc) (retry_if_server_error_init server_error_codes)
      | None \<Rightarrow> False)"

section \<open>Durations and the conversion of a header value\<close>

text \<open>
  A wait is a Python float. The finite values are kept as exact rationals: the value of
  a decimal literal is the number it denotes. (The interpreter then rounds to the nearest
  double, which leaves every small integer as it is and makes no non-negative value
  negative.) The three special values of a float are separate constructors.
\<close>

datatype pyfloat = Fin rat | PInf | NInf | NaN


datatype error = ValueError

text \<open>
  \<^verbatim>\<open>float(s)\<close> on a string: surrounding whitespace is dropped, single underscores
  between digits are dropped, and what is left must be, as a whole, an optional sign
  followed by a decimal number with an optional exponent, or by \<^verbatim>\<open>inf\<close>,
  \<^verbatim>\<open>infinity\<close> or \<^verbatim>\<open>nan\<close> in any case. Anything else raises \<^verbatim>\<open>ValueError\<close>.

  A character is a code point below 256. The two whitespace characters beyond ASCII in
  this range, the next-line control and the no-break space, count as blanks; every other
  character beyond ASCII is rejected, here as in the interpreter, since no part of the
  syntax admits it.
\<close>

definition to_ascii_space :: "char \<Rightarrow> char" where
  "to_ascii_space c = (if c = CHR 0x85 \<or> c = CHR 0xA0 then CHR '' '' else c)"

definition is_space :: "char \<Rightarrow> bool" where
  "is_space c = (c \<in> set [CHR '' '', CHR 0x09, CHR 0x0A, CHR 0x0B, CHR 0x0C, CHR 0x0D])"

definition strip :: "string \<Rightarrow> string" where
  "strip s = rev (dropWhile is_space (rev (dropWhile is_space s)))"

definition is_digit :: "char \<Rightarrow> bool" where
  "is_digit c = (c \<in> set ''0123456789'')"

definition digit_value :: "char \<Rightarrow> nat" where
  "digit_value c =
     (case map_of (zip ''0123456789'' [0, 1, 2, 3, 4, 5, 6, 7, 8, 9]) c of
        Some d \<Rightarrow> d
      | None \<Rightarrow> 0)"

definition digits_value :: "string \<Rightarrow> nat" where
  "digits_value ds = foldl (\<lambda>n c. 10 * n + digit_value c) 0 ds"

text \<open>
  An underscore is accepted only directly after a digit and directly before a digit;
  \<open>prev\<close> is the character before the current one (a NUL at the start).
\<close>

fun remove_underscores :: "char \<Rightarrow> string \<Rightarrow> string option" where
  "remove_underscores prev [] = (if prev = CHR ''_'' then None else Some [])"
| "remove_underscores prev (c # cs) =
     (if c = CHR ''_'' then
        (if is_digit prev then remove_underscores c cs else None)
      else if prev = CHR ''_'' \<and> \<not> is_digit c then None
      else map_option ((#) c) (remove_underscores c cs))"

definition parse_sign :: "string \<Rightarrow> bool \<times> string" where
  "parse_sign s =
     (case s of
        [] \<Rightarrow> (False, [])
      | c # cs \<Rightarrow>
          if c = CHR ''-'' then (True, cs)
          else if c = CHR ''+'' then (False, cs)
          else (False, s))"

text \<open>
  An exponent is \<^verbatim>\<open>e\<close> or \<^verbatim>\<open>E\<close>, an optional sign and at least one digit. Where the
  digits are missing nothing is consumed, and the caller then finds the \<^verbatim>\<open>e\<close> left over.
\<close>

definition parse_exponent :: "string \<Rightarrow> int \<times> string" where
  "parse_exponent s =
     (case s of
        [] \<Rightarrow> (0, [])
      | c # cs \<Rightarrow>
          if c = CHR ''e'' \<or> c = CHR ''E'' then
            (let (neg, ds) = parse_sign cs;
                 digs = takeWhile is_digit ds
             in if digs = [] then (0, s)
                else ((if neg then - int (digits_value digs) else int (digits_value digs)),
                      dropWhile is_digit ds))
          else (0, s))"

definition scale10 :: "rat \<Rightarrow> int \<Rightarrow> rat" where
  "scale10 m e = (if 0 \<le> e then m * 10 ^ nat e else m / 10 ^ nat (- e))"

definition parse_decimal :: "string \<Rightarrow> (rat \<times> string) option" where
  "parse_decimal s =
     (let ip = takeWhile is_digit s;
          r1 = dropWhile is_digit s;
          (fp, r2) =
            (case r1 of
               [] \<Rightarrow> ([], [])
             | c # cs \<Rightarrow>
                 if c = CHR ''.'' then (takeWhile is_digit cs, dropWhile is_digit cs)
                 else ([], r1))
      in if ip = [] \<and> fp = [] then None
         else
           (let (e, r3) = parse_exponent r2;
                m = of_nat (digits_value (ip @ fp)) / 10 ^ length fp
            in Some (scale10 m e, r3)))"

definition float_of_string :: "string \<Rightarrow> error + pyfloat" where
  "float_of_string s =
     (case remove_underscores (CHR 0x00) (strip (map to_ascii_space s)) of
        None \<Rightarrow> Inl ValueError
      | Some t \<Rightarrow>
          (let (neg, u) = parse_sign t in
           case parse_decimal u of
             Some (q, rest) \<Rightarrow>
               if rest = [] then Inr (Fin (if neg then - q else q)) else Inl ValueError
           | None \<Rightarrow>
               (let l = map to_lower u in
                if l = ''inf'' \<or> l = ''infinity'' then Inr (if neg then NInf else PInf)
                else if l = ''nan'' then Inr NaN
                else Inl ValueError)))"

section \<open>Wait strategies\<close>

text \<open>
  A wait strategy is called with the retry state and returns the seconds to wait. The
  backoff primitives of the retry library may draw a random jitter, so a call also reads
  and advances a state \<open>'s\<close> outside the retry state (for the library's primitives, the
  random number generator). A backoff primitive always returns a number; the header
  strategy of this module may raise instead.
\<close>

type_synonym 's backoff = "retry_state \<Rightarrow> 's \<Rightarrow> pyfloat \<times> 's"

type_synonym 's wait_base = "retry_state \<Rightarrow> 's \<Rightarrow> (error + pyfloat) \<times> 's"

definition returning :: "'s backoff \<Rightarrow> 's wait_base" where
  "returning w rs s = (let (d, s') = w rs s in (Inr d, s'))"

subsection \<open>The primitives of the retry library\<close>

text \<open>
  Modelled from the spec: the random source behind the jittered backoff, which belongs
  to the retry library and not to this module. The generator is the list of its coming
  draws from the unit interval (zero once the list is used up);
  \<^verbatim>\<open>random.uniform(a, b)\<close> takes the next draw.
\<close>

type_synonym rng = "rat list"

definition random_uniform :: "rat \<Rightarrow> rat \<Rightarrow> rng \<Rightarrow> rat \<times> rng" where
  "random_uniform a b g =
     (case g of
        [] \<Rightarrow> (a, [])
      | u # g' \<Rightarrow> (a + (b - a) * u, g'))"

definition MAX_WAIT :: rat where
  "MAX_WAIT = 2 ^ 62"

definition py_pow :: "rat \<Rightarrow> int \<Rightarrow> rat" where
  "py_pow b k = (if 0 \<le> k then b ^ nat k else 1 / b ^ nat (- k))"

text \<open>
  Modelled from the spec: exponential backoff with random jitter and a cap, a primitive
  of the retry library: \<open>initial * exp_base ^ (attempt - 1)\<close> plus a jitter drawn from
  \<open>[0, jitter]\<close>, clamped to \<open>[0, max]\<close>.
\<close>

definition wait_exponential_jitter :: "rat \<Rightarrow> rat \<Rightarrow> rat \<Rightarrow> rat \<Rightarrow> rng backoff" where
  "wait_exponential_jitter initial maximum exp_base jitter rs g =
     (let (j, g') = random_uniform 0 jitter g;
          e = py_pow exp_base (attempt_number rs - 1);
          result = initial * e + j
      in (Fin (max 0 (min result maximum)), g'))"

text \<open>
  Modelled from the spec: plain exponential backoff with a cap, a primitive of the retry
  library: \<open>multiplier * exp_base ^ (attempt - 1)\<close>, clamped to \<open>[max 0 min, max]\<close>.
\<close>

definition wait_exponential :: "rat \<Rightarrow> rat \<Rightarrow> rat \<Rightarrow> rat \<Rightarrow> rng backoff" where
  "wait_exponential multiplier maximum exp_base minimum rs g =
     (let e = py_pow exp_base (attempt_number rs - 1);
          result = multiplier * e
      in (Fin (max (max 0 minimum) (min result maximum)), g))"

subsection \<open>The wait taken from a response header\<close>

text \<open>
  \<^verbatim>\<open>wait_from_header.__call__\<close>. For a status-carrying error the argument of
  \<^verbatim>\<open>headers.get\<close>, the fallback's value, is computed before the lookup, so the fallback
  is called on this path as well; \<^verbatim>\<open>float\<close> is then applied to the header's string or,
  where the header is missing, to the fallback's value, which it leaves as it is.
\<close>

definition wait_from_header :: "string \<Rightarrow> 's backoff \<Rightarrow> 's wait_base" where
  "wait_from_header header fallback rs s =
     (case outcome rs of
        Some oc \<Rightarrow>
          (case exception oc of
             Some (HTTPStatusError r) \<Rightarrow>
               (let (d, s') = fallback rs s in
                case headers_get (headers r) header of
                  Some v \<Rightarrow> (float_of_string v, s')
                | None \<Rightarrow> (Inr d, s'))
           | _ \<Rightarrow> returning fallback rs s)
      | None \<Rightarrow> returning fallback rs s)"

definition wait_from_header_default_fallback :: "rng backoff" where
  "wait_from_header_default_fallback = wait_exponential_jitter 1 15 2 1"

definition wait_retry_after_header :: "string \<Rightarrow> 's backoff \<Rightarrow> 's wait_base" where
  "wait_retry_after_header header fallback = wait_from_header header fallback"

definition wait_retry_after_header_default :: "rng wait_base" where
  "wait_retry_after_header_default =
     wait_retry_after_header ''Retry-After'' wait_from_header_default_fallback"

subsection \<open>The context-aware dispatcher\<close>

text \<open>
  \<^verbatim>\<open>wait_context_aware\<close>: the four strategies, then the three category sets, each of
  which the constructor replaces by the module's default when it is \<^verbatim>\<open>None\<close>.
\<close>

definition wait_context_aware ::
  "'s wait_base \<Rightarrow> 's wait_base \<Rightarrow> 's wait_base \<Rightarrow> 's wait_base \<Rightarrow>
   status_codes option \<Rightarrow> class_info option \<Rightarrow> class_info option \<Rightarrow> 's wait_base" where
  "wait_context_aware wait_server_errors wait_network_errors wait_network_timeouts
     wait_rate_limited server_error_codes network_errors network_timeouts rs s =
     (let server_error_codes =
            (case server_error_codes of None \<Rightarrow> RETRY_SERVER_ERROR_CODES | Some c \<Rightarrow> c);
          network_errors =
            (case network_errors of None \<Rightarrow> RETRY_NETWORK_ERRORS | Some e \<Rightarrow> e);
          network_timeouts =
            (case network_timeouts of None \<Rightarrow> RETRY_NETWORK_TIMEOUTS | Some t \<Rightarrow> t)
      in case outcome rs of
           Some oc \<Rightarrow>
             (let exc = exception oc in
              if is_server_error exc server_error_codes then wait_server_errors rs s
              else if isinstance exc network_errors then wait_network_errors rs s
              else if isinstance exc network_timeouts then wait_network_timeouts rs s
              else if is_rate_limited exc then wait_rate_limited rs s
              else (Inr (Fin 0), s))
         | None \<Rightarrow> (Inr (Fin 0), s))"

text \<open>The dispatcher as its constructor builds it when every argument is left out.\<close>

definition wait_context_aware_default :: "rng wait_base" where
  "wait_context_aware_default =
     wait_context_aware
       (returning (wait_exponential_jitter 1 MAX_WAIT 2 1))
       (returning (wait_exponential 1 MAX_WAIT 2 0))
       (returning (wait_exponential_jitter 1 MAX_WAIT 2 1))
       wait_retry_after_header_default
       None None None"

section \<open>The composed policy\<close>

text \<open>
  Modelled from the spec: the retry library's disjunction of predicates and its stop
  condition on the attempt count.
\<close>

definition retry_any :: "(retry_state \<Rightarrow> bool) list \<Rightarrow> retry_state \<Rightarrow> bool" where
  "retry_any retries rs = list_ex (\<lambda>r. r rs) retries"

definition stop_after_attempt :: "int \<Rightarrow> retry_state \<Rightarrow> bool" where
  "stop_after_attempt max_attempt_number rs = (max_attempt_number \<le> attempt_number rs)"

text \<open>
  The keyword arguments of \<^verbatim>\<open>retry_http_errors\<close>. The last three fields are the entries
  \<^verbatim>\<open>retry\<close>, \<^verbatim>\<open>wait\<close> and \<^verbatim>\<open>stop\<close> of the remaining keywords, \<open>None\<close> when absent.
\<close>

record 's retry_http_errors_args =
  max_attempt_number :: int
  retry_server_errors :: bool
  retry_network_errors :: bool
  retry_network_timeouts :: bool
  retry_rate_limited :: bool
  wait_server_errors :: "'s wait_base"
  wait_network_errors :: "'s wait_base"
  wait_network_timeouts :: "'s wait_base"
  wait_rate_limited :: "'s wait_base"
  server_error_codes :: "status_codes option"
  network_errors :: "class_info option"
  network_timeouts :: "class_info option"
  dkw_retry :: "(retry_state \<Rightarrow> bool) option"
  dkw_wait :: "'s wait_base option"
  dkw_stop :: "(retry_state \<Rightarrow> bool) option"

definition retry_http_errors_defaults :: "rng retry_http_errors_args" where
  "retry_http_errors_defaults =
     \<lparr> max_attempt_number = 3,
       retry_server_errors = True,
       retry_network_errors = True,
       retry_network_timeouts = True,
       retry_rate_limited = True,
       wait_server_errors = returning (wait_exponential_jitter 1 15 2 1),
       wait_network_errors = returning (wait_exponential 1 15 2 0),
       wait_network_timeouts = returning (wait_exponential_jitter 1 15 2 1),
       wait_rate_limited = wait_retry_after_header_default,
       server_error_codes = None,
       network_errors = None,
       network_timeouts = None,
       dkw_retry = None,
       dkw_wait = None,
       dkw_stop = None \<rparr>"

text \<open>The three strategies handed to the retry library.\<close>

record 's policy =
  retry :: "retry_state \<Rightarrow> bool"
  wait :: "'s wait_base"
  stop :: "retry_state \<Rightarrow> bool"

definition retry_strategies :: "'s retry_http_errors_args \<Rightarrow> (retry_state \<Rightarrow> bool) list" where
  "retry_strategies args =
     (let server_error_codes =
            (case server_error_codes args of
               None \<Rightarrow> RETRY_SERVER_ERROR_CODES | Some c \<Rightarrow> c);
          network_errors =
            (case network_errors args of None \<Rightarrow> RETRY_NETWORK_ERRORS | Some e \<Rightarrow> e);
          network_timeouts =
            (case network_timeouts args of None \<Rightarrow> RETRY_NETWORK_TIMEOUTS | Some t \<Rightarrow> t)
      in (if retry_server_errors args
          then [retry_if_server_error (Some server_error_codes)] else [])
       @ (if retry_network_errors args
          then [retry_if_network_error (Some network_errors)] else [])
       @ (if retry_network_timeouts args
          then [retry_if_network_timeout (Some network_timeouts)] else [])
       @ (if retry_rate_limited args then [retry_if_rate_limited] else []))"

text \<open>
  \<^verbatim>\<open>retry_http_errors\<close> up to the decorator it returns. The dispatcher is built from the
  four strategies alone: the category sets are not handed on to it.
\<close>

definition retry_http_errors :: "'s retry_http_errors_args \<Rightarrow> 's policy" where
  "retry_http_errors args =
     \<lparr> retry =
         (case dkw_retry args of
            Some r \<Rightarrow> r
          | None \<Rightarrow> retry_any (retry_strategies args)),
       wait =
         (case dkw_wait args of
            Some w \<Rightarrow> w
          | None \<Rightarrow>
              wait_context_aware (wait_server_errors args) (wait_network_errors args)
                (wait_network_timeouts args) (wait_rate_limited args) None None None),
       stop =
         (case dkw_stop args of
            Some st \<Rightarrow> st
          | None \<Rightarrow> stop_after_attempt (max_attempt_number args)) \<rparr>"

section \<open>Calling a strategy twice\<close>



section \<open>Auxiliary facts\<close>


lemma isinstance_status_error:
  "isinstance (Some (HTTPStatusError r)) info \<longleftrightarrow>
     (\<exists>c \<in> set (classes_of info). c \<in> {HTTPStatusError (), HTTPError, Exception, BaseException})"
  by (auto simp: isinstance_def type_of_def list_ex_iff)

lemma exception_eq_Some: "exception oc = Some e \<longleftrightarrow> oc = Raised e"
  by (cases oc) auto

lemma is_server_error_iff:
  "is_server_error exc codes \<longleftrightarrow>
     (\<exists>r. exc = Some (HTTPStatusError r) \<and> status_code r \<in> set (normalize_status_codes codes))"
  by (auto simp: is_server_error_def split: option.splits exc.splits)

lemma is_rate_limited_iff:
  "is_rate_limited exc \<longleftrightarrow> (\<exists>r. exc = Some (HTTPStatusError r) \<and> status_code r = 429)"
  by (auto simp: is_rate_limited_def TOO_MANY_REQUESTS_def split: option.splits exc.splits)

lemma default_server_error_codes:
  "set (normalize_status_codes (retry_if_server_error_init None)) = {500, 502, 503, 504}"
  by (auto simp: retry_if_server_error_init_def RETRY_SERVER_ERROR_CODES_def
      INTERNAL_SERVER_ERROR_def BAD_GATEWAY_def GATEWAY_TIMEOUT_def SERVICE_UNAVAILABLE_def)

lemma float_of_string_5: "float_of_string ''5'' = Inr (Fin 5)"
  by (simp add: float_of_string_def to_ascii_space_def strip_def is_space_def parse_sign_def
        parse_decimal_def
      parse_exponent_def is_digit_def digits_value_def digit_value_def scale10_def)

lemma headers_get_Retry_After:
  "headers_get [(''Retry-After'', v)] ''Retry-After'' = Some v"
  "headers_get [] ''Retry-After'' = None"
  by (simp_all add: headers_get_def)

text \<open>The dispatcher's tests are the four retry predicates under the same configuration.\<close>

lemma wait_context_aware_cases:
  "wait_context_aware w1 w2 w3 w4 codes errors timeouts rs s =
     (if retry_if_server_error codes rs then w1 rs s
      else if retry_if_network_error errors rs then w2 rs s
      else if retry_if_network_timeout timeouts rs then w3 rs s
      else if retry_if_rate_limited rs then w4 rs s
      else (Inr (Fin 0), s))"
  by (simp add: wait_context_aware_def retry_if_server_error_def retry_if_network_error_def
      retry_if_network_timeout_def retry_if_rate_limited_def retry_if_server_error_init_def
      retry_if_network_error_init_def retry_if_network_timeout_init_def
      split: option.splits)


text \<open>Without an override the composed predicate is the disjunction of the enabled ones.\<close>

lemma retry_http_errors_retry:
  "dkw_retry args = None \<Longrightarrow>
     retry (retry_http_errors args) rs \<longleftrightarrow>
       (retry_server_errors args \<and> retry_if_server_error (server_error_codes args) rs) \<or>
       (retry_network_errors args \<and> retry_if_network_error (network_errors args) rs) \<or>
       (retry_network_timeouts args \<and> retry_if_network_timeout (network_timeouts args) rs) \<or>
       (retry_rate_limited args \<and> retry_if_rate_limited rs)"
  by (auto simp: retry_http_errors_def retry_strategies_def retry_any_def
      retry_if_server_error_def retry_if_network_error_def retry_if_network_timeout_def
      retry_if_server_error_init_def retry_if_network_error_init_def
      retry_if_network_timeout_init_def
      split: option.splits)

text \<open>The predicates at the sample failures used below.\<close>

lemma server_error_at_status:
  "retry_if_server_error None
     \<lparr>attempt_number = n, outcome = Some (Raised (HTTPStatusError \<lparr>status_code = c, headers = h\<rparr>))\<rparr>
   \<longleftrightarrow> c \<in> {500, 502, 503, 504}"
  by (auto simp: retry_if_server_error_def retry_if_server_error_init_def is_server_error_def
      RETRY_SERVER_ERROR_CODES_def INTERNAL_SERVER_ERROR_def BAD_GATEWAY_def
      GATEWAY_TIMEOUT_def SERVICE_UNAVAILABLE_def)

lemma rate_limited_at_status:
  "retry_if_rate_limited
     \<lparr>attempt_number = n, outcome = Some (Raised (HTTPStatusError \<lparr>status_code = c, headers = h\<rparr>))\<rparr>
   \<longleftrightarrow> c = 429"
  by (simp add: retry_if_rate_limited_def is_rate_limited_def TOO_MANY_REQUESTS_def)

lemma network_defaults_at_status:
  "\<not> retry_if_network_error None
     \<lparr>attempt_number = n, outcome = Some (Raised (HTTPStatusError r))\<rparr>"
  "\<not> retry_if_network_timeout None
     \<lparr>attempt_number = n, outcome = Some (Raised (HTTPStatusError r))\<rparr>"
  by (simp_all add: retry_if_network_error_def retry_if_network_error_init_def
      RETRY_NETWORK_ERRORS_def retry_if_network_timeout_def retry_if_network_timeout_init_def
      RETRY_NETWORK_TIMEOUTS_def isinstance_status_error)

lemma wait_exponential_first_attempt:
  "attempt_number rs = 1 \<Longrightarrow> 0 \<le> m \<Longrightarrow> m \<le> 15 \<Longrightarrow>
     returning (wait_exponential m 15 2 0) rs g = (Inr (Fin m), g)"
  by (simp add: returning_def wait_exponential_def py_pow_def)

lemma default_fallback_first_attempt:
  "attempt_number rs = 1 \<Longrightarrow>
     wait_from_header_default_fallback rs [u] = (Fin (max 0 (min (1 + u) 15)), [])"
  "attempt_number rs = 1 \<Longrightarrow>
     wait_from_header_default_fallback rs [] = (Fin 1, [])"
  by (simp_all add: wait_from_header_default_fallback_def wait_exponential_jitter_def
      random_uniform_def py_pow_def)

section \<open>The classifiers\<close>

text \<open>
  C5: the server-error predicate holds exactly for a status-carrying error whose status
  code is in the configured set; the set is 500, 502, 503 and 504 when none is
  configured; a code outside the set is not a server error, whatever its range; and a
  single code stands for the one-element set.
\<close>

theorem server_error_classifier:
  "(retry_if_server_error codes rs \<longleftrightarrow>
      (\<exists>r. outcome rs = Some (Raised (HTTPStatusError r)) \<and>
           status_code r \<in> set (normalize_status_codes (retry_if_server_error_init codes))))
   \<and> set (normalize_status_codes (retry_if_server_error_init None)) = {500, 502, 503, 504}
   \<and> (outcome rs = Some (Raised (HTTPStatusError r)) \<and>
        status_code r \<notin> set (normalize_status_codes (retry_if_server_error_init codes))
        \<longrightarrow> \<not> retry_if_server_error codes rs)
   \<and> normalize_status_codes (Code c) = [c]
   \<and> retry_if_server_error (Some (Code c)) rs = retry_if_server_error (Some (Codes [c])) rs"
proof (intro conjI)
  show "retry_if_server_error codes rs \<longleftrightarrow>
      (\<exists>r. outcome rs = Some (Raised (HTTPStatusError r)) \<and>
           status_code r \<in> set (normalize_status_codes (retry_if_server_error_init codes)))"
    by (auto simp: retry_if_server_error_def is_server_error_iff exception_eq_Some
        split: option.splits)
  show "set (normalize_status_codes (retry_if_server_error_init None)) = {500, 502, 503, 504}"
    by (rule default_server_error_codes)
  show "outcome rs = Some (Raised (HTTPStatusError r)) \<and>
        status_code r \<notin> set (normalize_status_codes (retry_if_server_error_init codes))
        \<longrightarrow> \<not> retry_if_server_error codes rs"
    by (auto simp: retry_if_server_error_def is_server_error_iff)
  show "normalize_status_codes (Code c) = [c]"
    by simp
  show "retry_if_server_error (Some (Code c)) rs = retry_if_server_error (Some (Codes [c])) rs"
    by (simp add: retry_if_server_error_def is_server_error_iff retry_if_server_error_init_def
        split: option.splits)
qed

text \<open>
  Under the default set a 503 is a server error and a 501 is not; configured with the
  single code 501, the predicate holds for a 501.
\<close>

theorem server_error_classifier_witness:
  "retry_if_server_error None
     \<lparr>attempt_number = 1,
      outcome = Some (Raised (HTTPStatusError \<lparr>status_code = 503, headers = []\<rparr>))\<rparr>
   \<and> \<not> retry_if_server_error None
     \<lparr>attempt_number = 1,
      outcome = Some (Raised (HTTPStatusError \<lparr>status_code = 501, headers = []\<rparr>))\<rparr>
   \<and> retry_if_server_error (Some (Code 501))
     \<lparr>attempt_number = 1,
      outcome = Some (Raised (HTTPStatusError \<lparr>status_code = 501, headers = []\<rparr>))\<rparr>"
proof -
  let ?r3 = "\<lparr>status_code = 503, headers = []\<rparr>"
  let ?r1 = "\<lparr>status_code = 501, headers = []\<rparr>"
  let ?rs3 = "\<lparr>attempt_number = 1, outcome = Some (Raised (HTTPStatusError ?r3))\<rparr>"
  let ?rs1 = "\<lparr>attempt_number = 1, outcome = Some (Raised (HTTPStatusError ?r1))\<rparr>"
  note d = server_error_classifier [of None ?rs3 ?r3]
  have "status_code ?r3 \<in> set (normalize_status_codes (retry_if_server_error_init None))"
    using d by simp
  then have a: "retry_if_server_error None ?rs3"
    using d by auto
  note e = server_error_classifier [of None ?rs1 ?r1]
  have "status_code ?r1 \<notin> set (normalize_status_codes (retry_if_server_error_init None))"
    using e by simp
  then have b: "\<not> retry_if_server_error None ?rs1"
    using e by simp
  note f = server_error_classifier [of "Some (Code 501)" ?rs1 ?r1 501]
  have "status_code ?r1 \<in>
      set (normalize_status_codes (retry_if_server_error_init (Some (Code 501))))"
    by (simp add: retry_if_server_error_init_def)
  then have c: "retry_if_server_error (Some (Code 501)) ?rs1"
    using f by auto
  from a b c show ?thesis by blast
qed

text \<open>
  C6: the rate-limit predicate holds exactly for a status-carrying error with status
  code 429, and for such a failure none of the other three predicates holds under its
  default configuration.
\<close>

theorem rate_limited_classifier:
  "(retry_if_rate_limited rs \<longleftrightarrow>
      (\<exists>r. outcome rs = Some (Raised (HTTPStatusError r)) \<and> status_code r = 429))
   \<and> (retry_if_rate_limited rs \<longrightarrow>
        \<not> retry_if_server_error None rs \<and> \<not> retry_if_network_error None rs \<and>
        \<not> retry_if_network_timeout None rs)"
proof -
  have iff: "retry_if_rate_limited rs \<longleftrightarrow>
      (\<exists>r. outcome rs = Some (Raised (HTTPStatusError r)) \<and> status_code r = 429)"
    by (auto simp: retry_if_rate_limited_def is_rate_limited_iff exception_eq_Some
        split: option.splits)
  have excl: "\<not> retry_if_server_error None rs \<and> \<not> retry_if_network_error None rs \<and>
        \<not> retry_if_network_timeout None rs" if "retry_if_rate_limited rs"
  proof -
    from that iff obtain r where
      r: "outcome rs = Some (Raised (HTTPStatusError r))" "status_code r = 429"
      by blast
    have "\<not> retry_if_server_error None rs"
      using r by (simp add: retry_if_server_error_def is_server_error_iff
          default_server_error_codes)
    moreover have "\<not> retry_if_network_error None rs"
      using r by (simp add: retry_if_network_error_def retry_if_network_error_init_def
          RETRY_NETWORK_ERRORS_def isinstance_status_error)
    moreover have "\<not> retry_if_network_timeout None rs"
      using r by (simp add: retry_if_network_timeout_def retry_if_network_timeout_init_def
          RETRY_NETWORK_TIMEOUTS_def isinstance_status_error)
    ultimately show ?thesis by blast
  qed
  from iff excl show ?thesis by blast
qed

theorem rate_limited_classifier_witness:
  "retry_if_rate_limited
     \<lparr>attempt_number = 1,
      outcome = Some (Raised (HTTPStatusError \<lparr>status_code = 429, headers = []\<rparr>))\<rparr>
   \<and> \<not> retry_if_server_error None
     \<lparr>attempt_number = 1,
      outcome = Some (Raised (HTTPStatusError \<lparr>status_code = 429, headers = []\<rparr>))\<rparr>
   \<and> \<not> retry_if_network_error None
     \<lparr>attempt_number = 1,
      outcome = Some (Raised (HTTPStatusError \<lparr>status_code = 429, headers = []\<rparr>))\<rparr>
   \<and> \<not> retry_if_network_timeout None
     \<lparr>attempt_number = 1,
      outcome = Some (Raised (HTTPStatusError \<lparr>status_code = 429, headers = []\<rparr>))\<rparr>"
proof -
  let ?r = "\<lparr>status_code = 429, headers = []\<rparr>"
  let ?rs = "\<lparr>attempt_number = 1, outcome = Some (Raised (HTTPStatusError ?r))\<rparr>"
  note t = rate_limited_classifier [of ?rs]
  have "\<exists>r. outcome ?rs = Some (Raised (HTTPStatusError r)) \<and> status_code r = 429"
    by simp
  with t have "retry_if_rate_limited ?rs" by blast
  with t show ?thesis by blast
qed

text \<open>
  C10: when the retry state has no outcome, none of the four predicates holds, the
  dispatcher returns 0 and the header strategy returns what its fallback returns.
\<close>

theorem no_outcome:
  "outcome rs = None \<Longrightarrow>
     \<not> retry_if_rate_limited rs \<and> \<not> retry_if_server_error codes rs \<and>
     \<not> retry_if_network_error errors rs \<and> \<not> retry_if_network_timeout timeouts rs \<and>
     wait_context_aware w1 w2 w3 w4 codes errors timeouts rs s = (Inr (Fin 0), s) \<and>
     wait_from_header header fallback rs s = (Inr (fst (fallback rs s)), snd (fallback rs s))"
  by (simp add: retry_if_rate_limited_def retry_if_server_error_def retry_if_network_error_def
      retry_if_network_timeout_def wait_context_aware_def wait_from_header_def returning_def
      split_beta)

theorem no_outcome_witness:
  "outcome \<lparr>attempt_number = 1, outcome = None\<rparr> = None \<and>
   \<not> retry_if_rate_limited \<lparr>attempt_number = 1, outcome = None\<rparr> \<and>
   \<not> retry_if_server_error None \<lparr>attempt_number = 1, outcome = None\<rparr> \<and>
   \<not> retry_if_network_error None \<lparr>attempt_number = 1, outcome = None\<rparr> \<and>
   \<not> retry_if_network_timeout None \<lparr>attempt_number = 1, outcome = None\<rparr> \<and>
   wait_context_aware_default \<lparr>attempt_number = 1, outcome = None\<rparr> [1 / 2]
     = (Inr (Fin 0), [1 / 2]) \<and>
   wait_retry_after_header_default \<lparr>attempt_number = 1, outcome = None\<rparr> [1 / 2]
     = (Inr (Fin (3 / 2)), [])"
proof -
  let ?rs = "\<lparr>attempt_number = 1, outcome = None\<rparr>"
  have h: "outcome ?rs = None" by simp
  have fb: "wait_from_header_default_fallback ?rs [1 / 2] = (Fin (3 / 2), [])"
    by (simp add: default_fallback_first_attempt)
  note t = no_outcome [OF h, where codes = None and errors = None and timeouts = None
      and header = "''Retry-After''" and fallback = wait_from_header_default_fallback
      and s = "[1 / 2]"
      and ?w1.0 = "returning (wait_exponential_jitter 1 MAX_WAIT 2 1)"
      and ?w2.0 = "returning (wait_exponential 1 MAX_WAIT 2 0)"
      and ?w3.0 = "returning (wait_exponential_jitter 1 MAX_WAIT 2 1)"
      and ?w4.0 = wait_retry_after_header_default]
  from h t fb show ?thesis
    by (simp add: wait_context_aware_default_def wait_retry_after_header_default_def
        wait_retry_after_header_def)
qed

section \<open>The composed retry predicate\<close>

text \<open>
  C9: with the four category switches off and no \<^verbatim>\<open>retry\<close> override, the list of
  strategies is empty, the composed predicate is the disjunction over the empty list,
  and it holds for no retry state.
\<close>

theorem all_disabled_never_retries:
  "\<not> retry_server_errors args \<Longrightarrow> \<not> retry_network_errors args \<Longrightarrow>
   \<not> retry_network_timeouts args \<Longrightarrow> \<not> retry_rate_limited args \<Longrightarrow>
   dkw_retry args = None \<Longrightarrow>
     retry_strategies args = [] \<and>
     retry (retry_http_errors args) = retry_any [] \<and>
     \<not> retry (retry_http_errors args) rs"
  by (simp add: retry_strategies_def retry_http_errors_def retry_any_def)

theorem all_disabled_never_retries_witness:
  "\<not> retry (retry_http_errors
      (retry_http_errors_defaults
         \<lparr>retry_server_errors := False, retry_network_errors := False,
          retry_network_timeouts := False, retry_rate_limited := False\<rparr>))
      \<lparr>attempt_number = 1,
       outcome = Some (Raised (HTTPStatusError \<lparr>status_code = 503, headers = []\<rparr>))\<rparr>"
proof -
  let ?args = "retry_http_errors_defaults
         \<lparr>retry_server_errors := False, retry_network_errors := False,
          retry_network_timeouts := False, retry_rate_limited := False\<rparr>"
  have "\<not> retry_server_errors ?args" "\<not> retry_network_errors ?args"
    "\<not> retry_network_timeouts ?args" "\<not> retry_rate_limited ?args" "dkw_retry ?args = None"
    by (simp_all add: retry_http_errors_defaults_def)
  from all_disabled_never_retries [OF this] show ?thesis by blast
qed

text \<open>
  C7: without a \<^verbatim>\<open>retry\<close> override, a policy with one category switched off retries
  exactly the failures that one of the other, enabled predicates accepts; the set
  configured for the disabled category plays no part. A failure of the disabled category
  is therefore retried exactly when another enabled predicate accepts it as well.
\<close>

theorem disabled_category:
  "dkw_retry args = None \<Longrightarrow>
     (\<not> retry_server_errors args \<longrightarrow>
        retry (retry_http_errors args) rs =
          ((retry_network_errors args \<and> retry_if_network_error (network_errors args) rs) \<or>
           (retry_network_timeouts args \<and>
              retry_if_network_timeout (network_timeouts args) rs) \<or>
           (retry_rate_limited args \<and> retry_if_rate_limited rs)))
   \<and> (\<not> retry_network_errors args \<longrightarrow>
        retry (retry_http_errors args) rs =
          ((retry_server_errors args \<and> retry_if_server_error (server_error_codes args) rs) \<or>
           (retry_network_timeouts args \<and>
              retry_if_network_timeout (network_timeouts args) rs) \<or>
           (retry_rate_limited args \<and> retry_if_rate_limited rs)))
   \<and> (\<not> retry_network_timeouts args \<longrightarrow>
        retry (retry_http_errors args) rs =
          ((retry_server_errors args \<and> retry_if_server_error (server_error_codes args) rs) \<or>
           (retry_network_errors args \<and> retry_if_network_error (network_errors args) rs) \<or>
           (retry_rate_limited args \<and> retry_if_rate_limited rs)))
   \<and> (\<not> retry_rate_limited args \<longrightarrow>
        retry (retry_http_errors args) rs =
          ((retry_server_errors args \<and> retry_if_server_error (server_error_codes args) rs) \<or>
           (retry_network_errors args \<and> retry_if_network_error (network_errors args) rs) \<or>
           (retry_network_timeouts args \<and>
              retry_if_network_timeout (network_timeouts args) rs)))"
  using retry_http_errors_retry [of args rs] by blast

text \<open>
  With the defaults and one category switched off, a failure of that category is not
  retried: a 503 without the server errors, a failed connection without the network
  errors, a read timeout without the timeouts, a 429 without the rate limit.
\<close>

theorem disabled_category_witness:
  "\<not> retry (retry_http_errors (retry_http_errors_defaults \<lparr>retry_server_errors := False\<rparr>))
       \<lparr>attempt_number = 1,
        outcome = Some (Raised (HTTPStatusError \<lparr>status_code = 503, headers = []\<rparr>))\<rparr>
   \<and> \<not> retry (retry_http_errors (retry_http_errors_defaults \<lparr>retry_network_errors := False\<rparr>))
       \<lparr>attempt_number = 1, outcome = Some (Raised ConnectError)\<rparr>
   \<and> \<not> retry (retry_http_errors (retry_http_errors_defaults \<lparr>retry_network_timeouts := False\<rparr>))
       \<lparr>attempt_number = 1, outcome = Some (Raised ReadTimeout)\<rparr>
   \<and> \<not> retry (retry_http_errors (retry_http_errors_defaults \<lparr>retry_rate_limited := False\<rparr>))
       \<lparr>attempt_number = 1,
        outcome = Some (Raised (HTTPStatusError \<lparr>status_code = 429, headers = []\<rparr>))\<rparr>"
proof -
  let ?d = "retry_http_errors_defaults"
  let ?st = "\<lambda>c. \<lparr>attempt_number = 1,
      outcome = Some (Raised (HTTPStatusError \<lparr>status_code = c, headers = []\<rparr>))\<rparr>"
  let ?ex = "\<lambda>e. \<lparr>attempt_number = 1, outcome = Some (Raised e)\<rparr>"
  have sets: "server_error_codes ?d = None" "network_errors ?d = None"
    "network_timeouts ?d = None" "dkw_retry ?d = None"
    "retry_server_errors ?d" "retry_network_errors ?d" "retry_network_timeouts ?d"
    "retry_rate_limited ?d"
    by (simp_all add: retry_http_errors_defaults_def)
  note se = server_error_at_status [where n = 1 and h = "[]"]
  note rl = rate_limited_at_status [where n = 1 and h = "[]"]
  note nd = network_defaults_at_status [where n = 1]
  have plain: "\<not> retry_if_server_error None (?ex e)" "\<not> retry_if_rate_limited (?ex e)"
    if "e = ConnectError \<or> e = ReadTimeout" for e
    using that
    by (auto simp: retry_if_server_error_def is_server_error_def retry_if_rate_limited_def
        is_rate_limited_def)
  have cls: "\<not> retry_if_network_timeout None (?ex ConnectError)"
    "\<not> retry_if_network_error None (?ex ReadTimeout)"
    by (simp_all add: retry_if_network_timeout_def retry_if_network_timeout_init_def
        RETRY_NETWORK_TIMEOUTS_def retry_if_network_error_def retry_if_network_error_init_def
        RETRY_NETWORK_ERRORS_def isinstance_def type_of_def)
  have 1: "\<not> retry (retry_http_errors (?d\<lparr>retry_server_errors := False\<rparr>)) (?st 503)"
    using disabled_category [of "?d\<lparr>retry_server_errors := False\<rparr>" "?st 503"]
      sets nd rl
    by simp
  have 2: "\<not> retry (retry_http_errors (?d\<lparr>retry_network_errors := False\<rparr>))
      (?ex ConnectError)"
    using disabled_category [of "?d\<lparr>retry_network_errors := False\<rparr>" "?ex ConnectError"]
      sets plain [of ConnectError] cls
    by simp
  have 3: "\<not> retry (retry_http_errors (?d\<lparr>retry_network_timeouts := False\<rparr>))
      (?ex ReadTimeout)"
    using disabled_category [of "?d\<lparr>retry_network_timeouts := False\<rparr>" "?ex ReadTimeout"]
      sets plain [of ReadTimeout] cls
    by simp
  have 4: "\<not> retry (retry_http_errors (?d\<lparr>retry_rate_limited := False\<rparr>)) (?st 429)"
    using disabled_category [of "?d\<lparr>retry_rate_limited := False\<rparr>" "?st 429"]
      sets nd se
    by simp
  from 1 2 3 4 show ?thesis by simp
qed

text \<open>
  The claim without the proviso fails: with the network errors switched off and the
  timeout classes widened to every transport error, a failed connection, which is a
  network error under the default classes, is retried through the timeout predicate.
\<close>

theorem disabled_category_counterexample:
  "\<not> retry_network_errors
       (retry_http_errors_defaults
          \<lparr>retry_network_errors := False, network_timeouts := Some (OneClass TransportError)\<rparr>) \<and>
   retry_if_network_error
       (network_errors (retry_http_errors_defaults
          \<lparr>retry_network_errors := False, network_timeouts := Some (OneClass TransportError)\<rparr>))
       \<lparr>attempt_number = 1, outcome = Some (Raised ConnectError)\<rparr> \<and>
   retry (retry_http_errors
       (retry_http_errors_defaults
          \<lparr>retry_network_errors := False, network_timeouts := Some (OneClass TransportError)\<rparr>))
       \<lparr>attempt_number = 1, outcome = Some (Raised ConnectError)\<rparr>"
  by (simp add: retry_http_errors_defaults_def retry_http_errors_def retry_strategies_def
      retry_any_def retry_if_network_error_def retry_if_network_timeout_def
      retry_if_network_error_init_def retry_if_network_timeout_init_def
      retry_if_server_error_def retry_if_server_error_init_def is_server_error_def
      RETRY_NETWORK_ERRORS_def isinstance_def type_of_def)

section \<open>The wait taken from a header\<close>



text \<open>
  C1: for a status-carrying error whose response has the configured header with a value
  that \<^verbatim>\<open>float\<close> rejects, the header strategy raises \<^verbatim>\<open>ValueError\<close>, after the call
  of the fallback; the fallback's value is not returned.
\<close>

theorem wait_from_header_unparsable:
  "outcome rs = Some (Raised (HTTPStatusError r)) \<Longrightarrow>
   headers_get (headers r) header = Some v \<Longrightarrow>
   float_of_string v = Inl ValueError \<Longrightarrow>
     wait_from_header header fallback rs s = (Inl ValueError, snd (fallback rs s))"
  by (simp add: wait_from_header_def split_beta)

text \<open>A 503 whose \<^verbatim>\<open>Retry-After\<close> is a date, the header's other form.\<close>

theorem wait_from_header_unparsable_witness:
  "float_of_string ''Wed, 21 Oct 2015 07:28:00 GMT'' = Inl ValueError \<and>
   wait_retry_after_header_default
     \<lparr>attempt_number = 1,
      outcome = Some (Raised (HTTPStatusError
        \<lparr>status_code = 503,
         headers = [(''Retry-After'', ''Wed, 21 Oct 2015 07:28:00 GMT'')]\<rparr>))\<rparr>
     [1 / 2]
   = (Inl ValueError, [])"
proof -
  let ?fb = "wait_from_header_default_fallback"
  let ?r = "\<lparr>status_code = 503,
         headers = [(''Retry-After'', ''Wed, 21 Oct 2015 07:28:00 GMT'')]\<rparr>"
  let ?rs = "\<lparr>attempt_number = 1, outcome = Some (Raised (HTTPStatusError ?r))\<rparr>"
  have p: "float_of_string ''Wed, 21 Oct 2015 07:28:00 GMT'' = Inl ValueError"
    by (simp add: float_of_string_def to_ascii_space_def strip_def is_space_def parse_sign_def
        parse_decimal_def
        parse_exponent_def is_digit_def to_lower_def)
  have o: "outcome ?rs = Some (Raised (HTTPStatusError ?r))" by simp
  have h: "headers_get (headers ?r) ''Retry-After'' = Some ''Wed, 21 Oct 2015 07:28:00 GMT''"
    by (simp add: headers_get_Retry_After)
  have fb: "?fb ?rs [1 / 2] = (Fin (3 / 2), [])"
    by (simp add: default_fallback_first_attempt)
  from wait_from_header_unparsable [OF o h p, of ?fb "[1 / 2]"] p fb
  show ?thesis
    by (simp add: wait_retry_after_header_default_def wait_retry_after_header_def)
qed

text \<open>
  The claim as it stands fails: on a 429 with \<^verbatim>\<open>Retry-After: not-a-number\<close> the default
  header strategy raises.
\<close>

theorem wait_from_header_unparsable_counterexample:
  "fst (wait_retry_after_header_default
     \<lparr>attempt_number = 1,
      outcome = Some (Raised (HTTPStatusError
        \<lparr>status_code = 429, headers = [(''Retry-After'', ''not-a-number'')]\<rparr>))\<rparr>
     [1 / 2]) = Inl ValueError"
proof -
  have "float_of_string ''not-a-number'' = Inl ValueError"
    by (simp add: float_of_string_def to_ascii_space_def strip_def is_space_def parse_sign_def
        parse_decimal_def
        parse_exponent_def is_digit_def to_lower_def)
  then show ?thesis
    by (simp add: wait_retry_after_header_default_def wait_retry_after_header_def
        wait_from_header_def headers_get_Retry_After split_beta)
qed




section \<open>The dispatcher\<close>

text \<open>
  C4: the dispatcher tries the categories in the order server error, network error,
  network timeout, rate limit and returns what the strategy of the first category that
  matches returns; a failure that matches several categories gets the wait of the first
  of them in this order, which is the server-error wait whenever the server-error
  category is among them; where no category matches, the dispatcher returns 0.
\<close>

theorem dispatch_priority:
  "(retry_if_server_error codes rs \<longrightarrow>
      wait_context_aware w1 w2 w3 w4 codes errors timeouts rs s = w1 rs s)
   \<and> (\<not> retry_if_server_error codes rs \<and> retry_if_network_error errors rs \<longrightarrow>
      wait_context_aware w1 w2 w3 w4 codes errors timeouts rs s = w2 rs s)
   \<and> (\<not> retry_if_server_error codes rs \<and> \<not> retry_if_network_error errors rs \<and>
      retry_if_network_timeout timeouts rs \<longrightarrow>
      wait_context_aware w1 w2 w3 w4 codes errors timeouts rs s = w3 rs s)
   \<and> (\<not> retry_if_server_error codes rs \<and> \<not> retry_if_network_error errors rs \<and>
      \<not> retry_if_network_timeout timeouts rs \<and> retry_if_rate_limited rs \<longrightarrow>
      wait_context_aware w1 w2 w3 w4 codes errors timeouts rs s = w4 rs s)
   \<and> (\<not> retry_if_server_error codes rs \<and> \<not> retry_if_network_error errors rs \<and>
      \<not> retry_if_network_timeout timeouts rs \<and> \<not> retry_if_rate_limited rs \<longrightarrow>
      wait_context_aware w1 w2 w3 w4 codes errors timeouts rs s = (Inr (Fin 0), s))"
  by (simp add: wait_context_aware_cases)

text \<open>
  Four strategies that return 1, 2, 3 and the header's value at the first attempt. A 503
  gets 1 even when the network-error classes are widened to every HTTP error, so that it
  matches two categories; a failed connection gets 2, a read timeout 3, a 429 with
  \<^verbatim>\<open>Retry-After: 5\<close> gets 5, and a 404 gets 0.
\<close>

theorem dispatch_priority_witness:
  "wait_context_aware (returning (wait_exponential 1 15 2 0))
     (returning (wait_exponential 2 15 2 0)) (returning (wait_exponential 3 15 2 0))
     wait_retry_after_header_default None (Some (OneClass HTTPError)) None
     \<lparr>attempt_number = 1,
      outcome = Some (Raised (HTTPStatusError \<lparr>status_code = 503, headers = []\<rparr>))\<rparr>
     [] = (Inr (Fin 1), [])
   \<and> wait_context_aware (returning (wait_exponential 1 15 2 0))
     (returning (wait_exponential 2 15 2 0)) (returning (wait_exponential 3 15 2 0))
     wait_retry_after_header_default None None None
     \<lparr>attempt_number = 1, outcome = Some (Raised ConnectError)\<rparr>
     [] = (Inr (Fin 2), [])
   \<and> wait_context_aware (returning (wait_exponential 1 15 2 0))
     (returning (wait_exponential 2 15 2 0)) (returning (wait_exponential 3 15 2 0))
     wait_retry_after_header_default None None None
     \<lparr>attempt_number = 1, outcome = Some (Raised ReadTimeout)\<rparr>
     [] = (Inr (Fin 3), [])
   \<and> wait_context_aware (returning (wait_exponential 1 15 2 0))
     (returning (wait_exponential 2 15 2 0)) (returning (wait_exponential 3 15 2 0))
     wait_retry_after_header_default None None None
     \<lparr>attempt_number = 1,
      outcome = Some (Raised (HTTPStatusError
        \<lparr>status_code = 429, headers = [(''Retry-After'', ''5'')]\<rparr>))\<rparr>
     [] = (Inr (Fin 5), [])
   \<and> wait_context_aware (returning (wait_exponential 1 15 2 0))
     (returning (wait_exponential 2 15 2 0)) (returning (wait_exponential 3 15 2 0))
     wait_retry_after_header_default None None None
     \<lparr>attempt_number = 1,
      outcome = Some (Raised (HTTPStatusError \<lparr>status_code = 404, headers = []\<rparr>))\<rparr>
     [] = (Inr (Fin 0), [])"
proof -
  let ?w1 = "returning (wait_exponential 1 15 2 0)"
  let ?w2 = "returning (wait_exponential 2 15 2 0)"
  let ?w3 = "returning (wait_exponential 3 15 2 0)"
  let ?w4 = "wait_retry_after_header_default"
  let ?st = "\<lambda>c h. \<lparr>attempt_number = 1,
      outcome = Some (Raised (HTTPStatusError \<lparr>status_code = c, headers = h\<rparr>))\<rparr>"
  let ?ex = "\<lambda>e. \<lparr>attempt_number = 1, outcome = Some (Raised e)\<rparr>"
  note se = server_error_at_status [where n = 1]
  have se': "\<not> retry_if_server_error None (?ex ConnectError)"
    "\<not> retry_if_server_error None (?ex ReadTimeout)"
    by (simp_all add: retry_if_server_error_def is_server_error_def)
  have ne: "retry_if_network_error (Some (OneClass HTTPError)) (?st 503 [])"
    "retry_if_network_error None (?ex ConnectError)"
    "\<not> retry_if_network_error None (?ex ReadTimeout)"
    by (simp_all add: retry_if_network_error_def retry_if_network_error_init_def
        RETRY_NETWORK_ERRORS_def isinstance_def type_of_def)
  have nt: "retry_if_network_timeout None (?ex ReadTimeout)"
    by (simp add: retry_if_network_timeout_def retry_if_network_timeout_init_def
        RETRY_NETWORK_TIMEOUTS_def isinstance_def type_of_def)
  note nd = network_defaults_at_status [where n = 1]
  note rl = rate_limited_at_status [where n = 1]
  note w = wait_exponential_first_attempt
  have w4: "?w4 (?st 429 [(''Retry-After'', ''5'')]) [] = (Inr (Fin 5), [])"
    by (simp add: wait_retry_after_header_default_def wait_retry_after_header_def
        wait_from_header_def float_of_string_5 headers_get_Retry_After split_beta
        default_fallback_first_attempt)
  have 1: "wait_context_aware ?w1 ?w2 ?w3 ?w4 None (Some (OneClass HTTPError)) None
      (?st 503 []) [] = (Inr (Fin 1), [])"
    using dispatch_priority [of None "?st 503 []" ?w1 ?w2 ?w3 ?w4
        "Some (OneClass HTTPError)" None "[]"] se ne(1) w
    by simp
  have 2: "wait_context_aware ?w1 ?w2 ?w3 ?w4 None None None (?ex ConnectError) []
      = (Inr (Fin 2), [])"
    using dispatch_priority [of None "?ex ConnectError" ?w1 ?w2 ?w3 ?w4 None None "[]"]
      se'(1) ne(2) w
    by simp
  have 3: "wait_context_aware ?w1 ?w2 ?w3 ?w4 None None None (?ex ReadTimeout) []
      = (Inr (Fin 3), [])"
    using dispatch_priority [of None "?ex ReadTimeout" ?w1 ?w2 ?w3 ?w4 None None "[]"]
      se'(2) ne(3) nt w
    by simp
  have 4: "wait_context_aware ?w1 ?w2 ?w3 ?w4 None None None
      (?st 429 [(''Retry-After'', ''5'')]) [] = (Inr (Fin 5), [])"
    using dispatch_priority [of None "?st 429 [(''Retry-After'', ''5'')]" ?w1 ?w2 ?w3 ?w4
        None None "[]"] se nd rl w4
    by simp
  have 5: "wait_context_aware ?w1 ?w2 ?w3 ?w4 None None None (?st 404 []) []
      = (Inr (Fin 0), [])"
    using dispatch_priority [of None "?st 404 []" ?w1 ?w2 ?w3 ?w4 None None "[]"]
      se nd rl
    by simp
  from 1 2 3 4 5 show ?thesis by simp
qed

text \<open>
  The claim as it stands fails: with the network-error classes widened to every
  transport error, a read timeout matches the network-error classes and the timeout
  classes; it gets the network-error wait, 2, and not the server-error wait, 1.
\<close>

theorem dispatch_priority_counterexample:
  "retry_if_network_error (Some (OneClass TransportError))
     \<lparr>attempt_number = 1, outcome = Some (Raised ReadTimeout)\<rparr>
   \<and> retry_if_network_timeout None
     \<lparr>attempt_number = 1, outcome = Some (Raised ReadTimeout)\<rparr>
   \<and> wait_context_aware (returning (wait_exponential 1 15 2 0))
     (returning (wait_exponential 2 15 2 0)) (returning (wait_exponential 3 15 2 0))
     wait_retry_after_header_default None (Some (OneClass TransportError)) None
     \<lparr>attempt_number = 1, outcome = Some (Raised ReadTimeout)\<rparr>
     [] = (Inr (Fin 2), [])
   \<and> returning (wait_exponential 1 15 2 0)
     \<lparr>attempt_number = 1, outcome = Some (Raised ReadTimeout)\<rparr>
     [] = (Inr (Fin 1), [])"
  by (simp add: wait_context_aware_cases wait_exponential_first_attempt
      retry_if_server_error_def is_server_error_def
      retry_if_network_error_def retry_if_network_error_init_def
      retry_if_network_timeout_def retry_if_network_timeout_init_def
      RETRY_NETWORK_TIMEOUTS_def isinstance_def type_of_def)




end
